theory Spec2Isabelle
  imports Main "HOL-Library.Word"
begin

section \<open>Python values used by the mock weight daemon\<close>

text \<open>
  The daemon (\<^verbatim>\<open>node/weightoracle/testdaemon/daemon.py\<close>) is Python. A Python \<^verbatim>\<open>str\<close>
  is a sequence of Unicode code points, so it is modelled as a list of naturals;
  \<^verbatim>\<open>bytes\<close> is a list of 8-bit words. A literal of the source is written
  \<open>lit ''...''\<close>.
\<close>

type_synonym byte = "8 word"
type_synonym pystr = "nat list"

definition lit :: "string \<Rightarrow> pystr" where
  "lit s = map of_char s"

text \<open>
  The values \<^verbatim>\<open>json.loads\<close> produces: \<^verbatim>\<open>None\<close>, \<^verbatim>\<open>bool\<close>, \<^verbatim>\<open>int\<close>, \<^verbatim>\<open>float\<close>
  (kept as its IEEE-754 binary64 bit pattern), \<^verbatim>\<open>str\<close>, \<^verbatim>\<open>list\<close> and \<^verbatim>\<open>dict\<close>.
  A dict is an association list read with \<open>map_of\<close>: the first pair of a key is the
  dict's entry for it. The responses of the handlers are dicts of the same kind.
\<close>

datatype json =
    JNull
  | JBool bool
  | JInt int
  | JFloat "64 word"
  | JStr pystr
  | JArr "json list"
  | JObj "(pystr \<times> json) list"

text \<open>The exceptions that the modelled code paths can raise.\<close>

datatype exn =
    AttributeError
  | TypeError
  | UnicodeDecodeError
  | JSONDecodeError pystr
  | RecursionError
  | ValueError
  | OSError

text \<open>
  Two functions of the Python standard library are not part of the repository and are
  taken as parameters: \<open>json_loads\<close> is \<^verbatim>\<open>json.loads\<close> on a decoded text (it raises
  \<^verbatim>\<open>JSONDecodeError\<close> with its message, or another exception), and \<open>repr_other\<close> is
  \<^verbatim>\<open>str()\<close> on the values for which it is not written out below (floats, lists and
  dicts).
\<close>

record pylib =
  json_loads :: "pystr \<Rightarrow> exn + json"
  repr_other :: "json \<Rightarrow> pystr"

text \<open>Truthiness, as \<^verbatim>\<open>not x\<close> tests it. A float is false when it is \<open>+0.0\<close> or \<open>-0.0\<close>.\<close>

fun truthy :: "json \<Rightarrow> bool" where
  "truthy JNull = False"
| "truthy (JBool b) = b"
| "truthy (JInt i) = (i \<noteq> 0)"
| "truthy (JFloat w) = (w \<noteq> 0 \<and> w \<noteq> 0x8000000000000000)"
| "truthy (JStr s) = (s \<noteq> [])"
| "truthy (JArr xs) = (xs \<noteq> [])"
| "truthy (JObj kvs) = (kvs \<noteq> [])"

text \<open>\<^verbatim>\<open>d.get(k)\<close> and \<^verbatim>\<open>d.get(k, default)\<close>.\<close>

definition dict_get_default :: "(pystr \<times> json) list \<Rightarrow> pystr \<Rightarrow> json \<Rightarrow> json" where
  "dict_get_default kvs k dflt = (case map_of kvs k of None \<Rightarrow> dflt | Some v \<Rightarrow> v)"

definition dict_get :: "(pystr \<times> json) list \<Rightarrow> pystr \<Rightarrow> json" where
  "dict_get kvs k = dict_get_default kvs k JNull"

text \<open>
  \<^verbatim>\<open>str(n)\<close> for an integer: the decimal digits, most significant first, after a minus
  sign for a negative number. (CPython refuses to render integers of more than 4300
  digits unless configured otherwise; the model renders every integer.)
\<close>

fun digits10 :: "nat \<Rightarrow> pystr" where
  "digits10 n = (if n < 10 then [48 + n] else digits10 (n div 10) @ [48 + n mod 10])"

declare digits10.simps [simp del]

definition str_int :: "int \<Rightarrow> pystr" where
  "str_int i = (if i < 0 then 45 # digits10 (nat (- i)) else digits10 (nat i))"

text \<open>The number that a string of decimal digits denotes.\<close>

definition decimal_value :: "pystr \<Rightarrow> nat" where
  "decimal_value s = foldl (\<lambda>acc c. 10 * acc + (c - 48)) 0 s"

text \<open>
  What an f-string substitutes for \<^verbatim>\<open>{x}\<close>: the string itself, the decimal digits of an
  integer, \<^verbatim>\<open>True\<close>/\<^verbatim>\<open>False\<close>, \<^verbatim>\<open>None\<close>, and the library's rendering of the rest.
\<close>

fun py_str :: "pylib \<Rightarrow> json \<Rightarrow> pystr" where
  "py_str L (JStr s) = s"
| "py_str L (JInt i) = str_int i"
| "py_str L (JBool b) = (if b then lit ''True'' else lit ''False'')"
| "py_str L JNull = lit ''None''"
| "py_str L v = repr_other L v"

section \<open>The daemon's state\<close>

text \<open>
  The fields of \<^verbatim>\<open>WeightDaemon\<close> that the request handlers read. The port, the latency
  (a delay before the request is read), the running flag and the listening socket belong
  to the accept loop.
\<close>

record daemon =
  genesis_hash :: "byte list"
  protocol_version :: pystr
  algorithm_version :: pystr
  weight_table :: "pystr \<rightharpoonup> int"
  total_weight :: int
  default_weight :: "int option"
  address_weights :: "pystr \<rightharpoonup> int"

text \<open>
  The handlers run in one thread per connection. Each handler returns, next to its
  result, the accesses it makes to the shared mutable state and the points where it
  takes and leaves \<^verbatim>\<open>self._lock\<close>, in program order.
\<close>

datatype shared = WeightTable | AddressWeights | TotalWeight

datatype event = Acquire | Release | Read shared | Write shared

section \<open>Request handlers\<close>

definition error_response :: "pystr \<Rightarrow> pystr \<Rightarrow> json" where
  "error_response msg code = JObj [(lit ''error'', JStr msg), (lit ''code'', JStr code)]"

definition weight_response :: "int \<Rightarrow> json" where
  "weight_response w = JObj [(lit ''weight'', JStr (str_int w))]"

definition handle_ping :: "json" where
  "handle_ping = JObj [(lit ''pong'', JBool True)]"

text \<open>
  \<^verbatim>\<open>_handle_weight\<close>. After the three presence checks and the override, the body runs
  under the lock. \<^verbatim>\<open>address in self.address_weights\<close> hashes the address: a list or
  a dict is unhashable (\<^verbatim>\<open>TypeError\<close>), and a number or a boolean is equal to none of
  the table's keys, which are strings. The fallback iterates over the address, which
  raises \<^verbatim>\<open>TypeError\<close> for a number or a boolean (lists and dicts have raised before).
  Leaving the \<^verbatim>\<open>with\<close> block releases the lock, also when an exception leaves it.
\<close>

definition handle_weight ::
  "pylib \<Rightarrow> daemon \<Rightarrow> (pystr \<times> json) list \<Rightarrow> event list \<times> (exn + json)" where
  "handle_weight L d request =
    (let address = dict_get request (lit ''address'');
         selection_id = dict_get request (lit ''selection_id'');
         balance_round = dict_get request (lit ''balance_round'')
     in
     if \<not> truthy address then
       ([], Inr (error_response (lit ''Missing address field'') (lit ''bad_request'')))
     else if \<not> truthy selection_id then
       ([], Inr (error_response (lit ''Missing selection_id field'') (lit ''bad_request'')))
     else if \<not> truthy balance_round then
       ([], Inr (error_response (lit ''Missing balance_round field'') (lit ''bad_request'')))
     else
       (case default_weight d of
          Some w \<Rightarrow> ([], Inr (weight_response w))
        | None \<Rightarrow>
           (case address of
              JArr _ \<Rightarrow> ([Acquire, Read AddressWeights, Release], Inl TypeError)
            | JObj _ \<Rightarrow> ([Acquire, Read AddressWeights, Release], Inl TypeError)
            | _ \<Rightarrow>
               (case (case address of JStr a \<Rightarrow> address_weights d a | _ \<Rightarrow> None) of
                  Some w \<Rightarrow>
                    ([Acquire, Read AddressWeights, Read AddressWeights, Release],
                     Inr (weight_response w))
                | None \<Rightarrow>
                   (let key = py_str L address @ lit '':'' @ py_str L selection_id
                                @ lit '':'' @ py_str L balance_round
                    in case weight_table d key of
                         Some w \<Rightarrow>
                           ([Acquire, Read AddressWeights, Read WeightTable, Read WeightTable,
                             Release],
                            Inr (weight_response w))
                       | None \<Rightarrow>
                          (case address of
                             JStr a \<Rightarrow>
                               ([Acquire, Read AddressWeights, Read WeightTable, Release],
                                Inr (weight_response (int (sum_list a mod 1000000))))
                           | _ \<Rightarrow>
                               ([Acquire, Read AddressWeights, Read WeightTable, Release],
                                Inl TypeError)))))))"

text \<open>\<^verbatim>\<open>_handle_total_weight\<close>: the total weight is read without taking the lock.\<close>

definition handle_total_weight ::
  "daemon \<Rightarrow> (pystr \<times> json) list \<Rightarrow> event list \<times> (exn + json)" where
  "handle_total_weight d request =
    (let balance_round = dict_get request (lit ''balance_round'');
         vote_round = dict_get request (lit ''vote_round'')
     in
     if \<not> truthy balance_round then
       ([], Inr (error_response (lit ''Missing balance_round field'') (lit ''bad_request'')))
     else if \<not> truthy vote_round then
       ([], Inr (error_response (lit ''Missing vote_round field'') (lit ''bad_request'')))
     else
       ([Read TotalWeight], Inr (JObj [(lit ''total_weight'', JStr (str_int (total_weight d)))])))"

text \<open>
  \<^verbatim>\<open>base64.b64encode\<close> (RFC 4648, \<open>=\<close> padding): three bytes become four characters
  of the alphabet \<^verbatim>\<open>A-Z\<close>, \<^verbatim>\<open>a-z\<close>, \<^verbatim>\<open>0-9\<close>, \<^verbatim>\<open>+\<close>, \<^verbatim>\<open>/\<close>, written here by its five
  ranges. \<open>b64decode\<close> is the strict inverse direction; on the canonical strings that
  \<open>b64encode\<close> produces it agrees with Python's \<^verbatim>\<open>base64.b64decode\<close>.
\<close>

definition b64_code :: "nat \<Rightarrow> nat" where
  "b64_code k =
     (if k < 26 then 65 + k
      else if k < 52 then 97 + (k - 26)
      else if k < 62 then 48 + (k - 52)
      else if k = 62 then 43
      else 47)"

definition b64_char :: "nat \<Rightarrow> byte" where
  "b64_char i = of_nat (b64_code (i mod 64))"

definition b64_index :: "byte \<Rightarrow> nat option" where
  "b64_index c =
     (let n = unat c
      in if 65 \<le> n \<and> n \<le> 90 then Some (n - 65)
         else if 97 \<le> n \<and> n \<le> 122 then Some (n - 97 + 26)
         else if 48 \<le> n \<and> n \<le> 57 then Some (n - 48 + 52)
         else if n = 43 then Some 62
         else if n = 47 then Some 63
         else None)"

fun b64encode :: "byte list \<Rightarrow> byte list" where
  "b64encode [] = []"
| "b64encode [a] =
     (let n = unat a * 65536
      in [b64_char (n div 262144), b64_char (n div 4096 mod 64), 61, 61])"
| "b64encode [a, b] =
     (let n = unat a * 65536 + unat b * 256
      in [b64_char (n div 262144), b64_char (n div 4096 mod 64),
          b64_char (n div 64 mod 64), 61])"
| "b64encode (a # b # c # rest) =
     (let n = unat a * 65536 + unat b * 256 + unat c
      in [b64_char (n div 262144), b64_char (n div 4096 mod 64),
          b64_char (n div 64 mod 64), b64_char (n mod 64)] @ b64encode rest)"

fun b64decode :: "byte list \<Rightarrow> byte list option" where
  "b64decode [] = Some []"
| "b64decode (c1 # c2 # c3 # c4 # rest) =
     (case (b64_index c1, b64_index c2) of
        (Some s1, Some s2) \<Rightarrow>
          if c3 = 61 \<and> c4 = 61 \<and> rest = [] then
            Some [of_nat ((s1 * 64 + s2) div 16)]
          else
            (case b64_index c3 of
               None \<Rightarrow> None
             | Some s3 \<Rightarrow>
                 if c4 = 61 \<and> rest = [] then
                   (let n = (s1 * 4096 + s2 * 64 + s3) div 4
                    in Some [of_nat (n div 256), of_nat (n mod 256)])
                 else
                   (case b64_index c4 of
                      None \<Rightarrow> None
                    | Some s4 \<Rightarrow>
                        (let n = s1 * 262144 + s2 * 4096 + s3 * 64 + s4
                         in map_option
                              (\<lambda>bs. of_nat (n div 65536) # of_nat (n div 256 mod 256)
                                     # of_nat (n mod 256) # bs)
                              (b64decode rest))))
      | _ \<Rightarrow> None)"
| "b64decode _ = None"

text \<open>\<^verbatim>\<open>bytes.decode("ascii")\<close> and, for the way back, \<^verbatim>\<open>str.encode("ascii")\<close>.\<close>

definition ascii_decode :: "byte list \<Rightarrow> exn + pystr" where
  "ascii_decode bs =
     (if list_all (\<lambda>b. unat b < 128) bs then Inr (map unat bs) else Inl UnicodeDecodeError)"

definition ascii_encode :: "pystr \<Rightarrow> byte list" where
  "ascii_encode s = map of_nat s"

text \<open>\<^verbatim>\<open>_handle_identity\<close>.\<close>

definition handle_identity :: "daemon \<Rightarrow> exn + json" where
  "handle_identity d =
     (case ascii_decode (b64encode (genesis_hash d)) of
        Inl e \<Rightarrow> Inl e
      | Inr g \<Rightarrow>
          Inr (JObj [(lit ''genesis_hash'', JStr g),
                     (lit ''protocol_version'', JStr (protocol_version d)),
                     (lit ''algorithm_version'', JStr (algorithm_version d))]))"

text \<open>
  \<^verbatim>\<open>_handle_request\<close>. \<^verbatim>\<open>request.get\<close> exists on a dict only: every other decoded
  value raises \<^verbatim>\<open>AttributeError\<close>. A value that is not a string is equal to none of
  the four type names.
\<close>

definition handle_request :: "pylib \<Rightarrow> daemon \<Rightarrow> json \<Rightarrow> event list \<times> (exn + json)" where
  "handle_request L d request =
     (case request of
        JObj kvs \<Rightarrow>
          (let req_type = dict_get_default kvs (lit ''type'') (JStr [])
           in if req_type = JStr (lit ''ping'') then ([], Inr handle_ping)
              else if req_type = JStr (lit ''identity'') then ([], handle_identity d)
              else if req_type = JStr (lit ''weight'') then handle_weight L d kvs
              else if req_type = JStr (lit ''total_weight'') then handle_total_weight d kvs
              else ([], Inr (error_response (lit ''Unknown request type: '' @ py_str L req_type)
                               (lit ''unsupported''))))
      | _ \<Rightarrow> ([], Inl AttributeError))"

section \<open>One connection\<close>

text \<open>
  \<^verbatim>\<open>bytes.decode("utf-8")\<close> with the default strict error handling: \<open>None\<close> stands for
  \<^verbatim>\<open>UnicodeDecodeError\<close>. Overlong forms, surrogates, code points above \<open>0x10FFFF\<close>,
  stray continuation bytes and truncated sequences are refused.
\<close>

definition is_cont :: "byte \<Rightarrow> bool" where
  "is_cont b = (0x80 \<le> unat b \<and> unat b \<le> 0xBF)"

fun utf8_decode :: "byte list \<Rightarrow> pystr option" where
  "utf8_decode [] = Some []"
| "utf8_decode (b # bs) =
     (let n = unat b in
      if n < 0x80 then map_option ((#) n) (utf8_decode bs)
      else if 0xC2 \<le> n \<and> n \<le> 0xDF then
        (case bs of
           c1 # r \<Rightarrow>
             if is_cont c1
             then map_option ((#) ((n - 0xC0) * 64 + (unat c1 - 0x80))) (utf8_decode r)
             else None
         | _ \<Rightarrow> None)
      else if 0xE0 \<le> n \<and> n \<le> 0xEF then
        (case bs of
           c1 # c2 # r \<Rightarrow>
             (let cp = (n - 0xE0) * 4096 + (unat c1 - 0x80) * 64 + (unat c2 - 0x80)
              in if is_cont c1 \<and> is_cont c2 \<and> 0x800 \<le> cp \<and> (cp < 0xD800 \<or> 0xDFFF < cp)
                 then map_option ((#) cp) (utf8_decode r)
                 else None)
         | _ \<Rightarrow> None)
      else if 0xF0 \<le> n \<and> n \<le> 0xF4 then
        (case bs of
           c1 # c2 # c3 # r \<Rightarrow>
             (let cp = (n - 0xF0) * 262144 + (unat c1 - 0x80) * 4096
                         + (unat c2 - 0x80) * 64 + (unat c3 - 0x80)
              in if is_cont c1 \<and> is_cont c2 \<and> is_cont c3 \<and> 0x10000 \<le> cp \<and> cp \<le> 0x10FFFF
                 then map_option ((#) cp) (utf8_decode r)
                 else None)
         | _ \<Rightarrow> None)
      else None)"

text \<open>
  What the connected socket does is the environment of a handler: the results of the
  successive \<^verbatim>\<open>recv(4096)\<close> calls (a chunk of bytes, empty when the peer has closed,
  or an exception) and whether \<^verbatim>\<open>sendall\<close> fails.
\<close>

datatype recv = Chunk "byte list" | RecvError

record connection =
  recvs :: "recv list"
  sendall_fails :: bool

text \<open>
  The read loop of \<^verbatim>\<open>_handle_client\<close>. \<open>0x7D\<close> is \<^verbatim>\<open>}\<close>. When the peer has sent all
  it will send, without closing and without a \<^verbatim>\<open>}\<close>, the next \<^verbatim>\<open>recv\<close> does not
  return: the loop's result is \<open>None\<close>.
\<close>

fun read_loop :: "byte list \<Rightarrow> recv list \<Rightarrow> (exn + byte list) option" where
  "read_loop data [] = None"
| "read_loop data (RecvError # rest) = Some (Inl OSError)"
| "read_loop data (Chunk chunk # rest) =
     (if chunk = [] then Some (Inr data)
      else (let data' = data @ chunk
            in if 0x7D \<in> set data' then Some (Inr data') else read_loop data' rest))"

text \<open>
  What a handler leaves behind: the responses written to the socket (each is the
  \<^verbatim>\<open>json.dumps\<close> of the dict followed by a newline), whether the socket was closed,
  the lines printed to standard error, and the accesses to the shared state.
\<close>

datatype log_entry = ErrorHandlingClient exn | ErrorSendingResponse exn

record client_outcome =
  sent :: "json list"
  closed :: bool
  logged :: "log_entry list"
  accesses :: "event list"

text \<open>\<^verbatim>\<open>_send_response\<close>: an exception of \<^verbatim>\<open>sendall\<close> is printed and swallowed.\<close>

definition send_response :: "connection \<Rightarrow> json \<Rightarrow> json list \<times> log_entry list" where
  "send_response conn response =
     (if sendall_fails conn then ([], [ErrorSendingResponse OSError]) else ([response], []))"

text \<open>
  \<^verbatim>\<open>_handle_client\<close>. The inner \<^verbatim>\<open>except\<close> catches \<^verbatim>\<open>json.JSONDecodeError\<close> only; every
  other exception reaches the outer \<^verbatim>\<open>except Exception\<close>, which prints it. The
  \<^verbatim>\<open>finally\<close> clause closes the socket on every path that returns.
\<close>

definition handle_client :: "pylib \<Rightarrow> daemon \<Rightarrow> connection \<Rightarrow> client_outcome option" where
  "handle_client L d conn =
     (case read_loop [] (recvs conn) of
        None \<Rightarrow> None
      | Some (Inl e) \<Rightarrow>
          Some \<lparr>sent = [], closed = True, logged = [ErrorHandlingClient e], accesses = []\<rparr>
      | Some (Inr data) \<Rightarrow>
          if data = [] then Some \<lparr>sent = [], closed = True, logged = [], accesses = []\<rparr>
          else
            (case utf8_decode data of
               None \<Rightarrow>
                 Some \<lparr>sent = [], closed = True,
                       logged = [ErrorHandlingClient UnicodeDecodeError], accesses = []\<rparr>
             | Some text \<Rightarrow>
                 (case json_loads L text of
                    Inl (JSONDecodeError msg) \<Rightarrow>
                      (let (out, lg) = send_response conn
                             (error_response (lit ''Invalid JSON: '' @ msg) (lit ''bad_request''))
                       in Some \<lparr>sent = out, closed = True, logged = lg, accesses = []\<rparr>)
                  | Inl e \<Rightarrow>
                      Some \<lparr>sent = [], closed = True, logged = [ErrorHandlingClient e],
                            accesses = []\<rparr>
                  | Inr request \<Rightarrow>
                      (case handle_request L d request of
                         (evs, Inl e) \<Rightarrow>
                           Some \<lparr>sent = [], closed = True, logged = [ErrorHandlingClient e],
                                 accesses = evs\<rparr>
                       | (evs, Inr response) \<Rightarrow>
                           (let (out, lg) = send_response conn response
                            in Some \<lparr>sent = out, closed = True, logged = lg,
                                      accesses = evs\<rparr>)))))"

section \<open>Administrative mutators\<close>

text \<open>\<^verbatim>\<open>set_weight\<close> and \<^verbatim>\<open>set_total_weight\<close>: both write under the lock.\<close>

definition set_weight ::
  "daemon \<Rightarrow> pystr \<Rightarrow> pystr \<Rightarrow> pystr \<Rightarrow> int \<Rightarrow> event list \<times> daemon" where
  "set_weight d address selection_id balance_round weight =
     (let key = address @ lit '':'' @ selection_id @ lit '':'' @ balance_round
      in ([Acquire, Write WeightTable, Release],
          d\<lparr>weight_table := (weight_table d)(key \<mapsto> weight)\<rparr>))"

definition set_total_weight :: "daemon \<Rightarrow> int \<Rightarrow> event list \<times> daemon" where
  "set_total_weight d tw = ([Acquire, Write TotalWeight, Release], d\<lparr>total_weight := tw\<rparr>)"

text \<open>
  The lock discipline: every access to the shared state in a thread's sequence of events
  happens between an \<open>Acquire\<close> and the next \<open>Release\<close>.
\<close>

fun guarded :: "bool \<Rightarrow> event list \<Rightarrow> bool" where
  "guarded held [] = True"
| "guarded held (Acquire # es) = guarded True es"
| "guarded held (Release # es) = guarded False es"
| "guarded held (Read x # es) = (held \<and> guarded held es)"
| "guarded held (Write x # es) = (held \<and> guarded held es)"

section \<open>Sample configuration\<close>

text \<open>
  Concrete inputs for the examples below. \<open>sample_loads\<close> agrees with \<^verbatim>\<open>json.loads\<close> on
  the texts \<^verbatim>\<open>[]\<close> and \<^verbatim>\<open>{}\<close> and on every text whose first character starts no JSON
  value (such as \<^verbatim>\<open>x\<close>); \<open>sample_repr\<close> agrees with \<^verbatim>\<open>str()\<close> on the empty list and
  the empty dict. The examples use them on these inputs only. The daemon is the one of
  the specification's end-to-end examples.
\<close>

definition sample_loads :: "pystr \<Rightarrow> exn + json" where
  "sample_loads text =
     (if text = lit ''[]'' then Inr (JArr [])
      else if text = lit ''{}'' then Inr (JObj [])
      else Inl (JSONDecodeError (lit ''Expecting value: line 1 column 1 (char 0)'')))"

definition sample_repr :: "json \<Rightarrow> pystr" where
  "sample_repr v = (if v = JObj [] then lit ''{}'' else lit ''[]'')"

definition sample_lib :: pylib where
  "sample_lib = \<lparr>json_loads = sample_loads, repr_other = sample_repr\<rparr>"

definition sample_daemon :: daemon where
  "sample_daemon =
     \<lparr>genesis_hash = replicate 32 0, protocol_version = lit ''1.0'',
      algorithm_version = lit ''1.0'', weight_table = Map.empty, total_weight = 1000000,
      default_weight = None, address_weights = [lit ''A1'' \<mapsto> 1000000]\<rparr>"

definition weight_request :: "string \<Rightarrow> string \<Rightarrow> string \<Rightarrow> (pystr \<times> json) list" where
  "weight_request a s b =
     [(lit ''type'', JStr (lit ''weight'')), (lit ''address'', JStr (lit a)),
      (lit ''selection_id'', JStr (lit s)), (lit ''balance_round'', JStr (lit b))]"

section \<open>Weight lookup\<close>

text \<open>
  \<open>str_int\<close> renders an integer in decimal: the digits of \<open>digits10 n\<close> are
  \<^verbatim>\<open>0\<close> to \<^verbatim>\<open>9\<close> and denote \<open>n\<close>.
\<close>

lemma digits10_are_digits: "list_all (\<lambda>c. 48 \<le> c \<and> c \<le> 57) (digits10 n)"
proof (induction n rule: digits10.induct)
  case (1 n)
  show ?case
  proof (cases "n < 10")
    case True
    then show ?thesis by (simp add: digits10.simps [of n])
  next
    case False
    have "n mod 10 < 10" by simp
    then have "48 + n mod 10 \<le> 57" by linarith
    with False 1 show ?thesis by (simp add: digits10.simps [of n])
  qed
qed

lemma decimal_value_digits10: "decimal_value (digits10 n) = n"
proof (induction n rule: digits10.induct)
  case (1 n)
  show ?case
  proof (cases "n < 10")
    case True
    then show ?thesis by (simp add: digits10.simps [of n] decimal_value_def)
  next
    case False
    with 1 have "decimal_value (digits10 (n div 10)) = n div 10" by simp
    with False show ?thesis
      by (simp add: digits10.simps [of n] decimal_value_def)
  qed
qed

lemma str_int_decimal:
  "str_int i = (if i < 0 then 45 # str_int (- i) else str_int i)"
  "0 \<le> i \<Longrightarrow>
     list_all (\<lambda>c. 48 \<le> c \<and> c \<le> 57) (str_int i) \<and> int (decimal_value (str_int i)) = i"
  by (simp_all add: str_int_def digits10_are_digits decimal_value_digits10)

text \<open>
  Claim C1. A weight request whose address is a non-empty string and whose selection_id
  and balance_round are present and not empty (non-empty strings in the protocol; any
  true value here) is answered by the first rule that applies: the default-weight
  override when one is configured (then no shared table is touched); else the address
  table's value for the address; else the weight table's value for the key
  \<^verbatim>\<open><address>:<selection_id>:<balance_round>\<close>; else the sum of the address's code points
  modulo 1,000,000, which depends on the address only. The weight is sent as the string
  of its decimal digits, not as a JSON number.
\<close>

theorem weight_resolution_order:
  assumes "dict_get request (lit ''address'') = JStr a" and "a \<noteq> []"
    and "truthy (dict_get request (lit ''selection_id''))"
    and "truthy (dict_get request (lit ''balance_round''))"
  shows "snd (handle_weight L d request) =
           Inr (JObj [(lit ''weight'', JStr (str_int
             (case default_weight d of
                Some w \<Rightarrow> w
              | None \<Rightarrow>
                 (case address_weights d a of
                    Some w \<Rightarrow> w
                  | None \<Rightarrow>
                     (case weight_table d
                             (a @ lit '':'' @ py_str L (dict_get request (lit ''selection_id''))
                                @ lit '':'' @ py_str L (dict_get request (lit ''balance_round'')))
                      of
                        Some w \<Rightarrow> w
                      | None \<Rightarrow> int (sum_list a mod 1000000))))))])
         \<and> (default_weight d \<noteq> None \<longrightarrow> fst (handle_weight L d request) = [])"
  using assms
  by (auto simp add: handle_weight_def Let_def weight_response_def split: option.splits)

theorem weight_resolution_order_witness:
  "snd (handle_weight sample_lib sample_daemon (weight_request ''ZZ'' ''x'' ''5''))
     = Inr (JObj [(lit ''weight'', JStr (lit ''180''))])
   \<and> snd (handle_weight sample_lib sample_daemon (weight_request ''A1'' ''x'' ''5''))
     = Inr (JObj [(lit ''weight'', JStr (lit ''1000000''))])"
  using weight_resolution_order [of "weight_request ''ZZ'' ''x'' ''5''" "lit ''ZZ''"
          sample_lib sample_daemon]
        weight_resolution_order [of "weight_request ''A1'' ''x'' ''5''" "lit ''A1''"
          sample_lib sample_daemon]
  by (simp add: weight_request_def sample_daemon_def dict_get_def dict_get_default_def
        lit_def str_int_def digits10.simps)

text \<open>
  Claim C4. When at least one of address, selection_id and balance_round is missing,
  null or empty, the weight handler returns the error \<^verbatim>\<open>Missing <field> field\<close> with code
  \<^verbatim>\<open>bad_request\<close> for the first such field in the order address, selection_id,
  balance_round. The result does not depend on the daemon's configuration or tables, and
  no shared state is accessed.
\<close>

theorem weight_missing_field_first_wins:
  assumes "\<not> truthy (dict_get request (lit ''address''))
           \<or> \<not> truthy (dict_get request (lit ''selection_id''))
           \<or> \<not> truthy (dict_get request (lit ''balance_round''))"
  shows "handle_weight L d request =
           ([], Inr (error_response
              (if \<not> truthy (dict_get request (lit ''address''))
                 then lit ''Missing address field''
               else if \<not> truthy (dict_get request (lit ''selection_id''))
                 then lit ''Missing selection_id field''
               else lit ''Missing balance_round field'')
              (lit ''bad_request'')))"
  using assms by (auto simp add: handle_weight_def Let_def)

theorem weight_missing_field_first_wins_witness:
  "handle_weight sample_lib sample_daemon
       [(lit ''type'', JStr (lit ''weight'')), (lit ''address'', JStr (lit ''A1'')),
        (lit ''selection_id'', JNull), (lit ''balance_round'', JStr [])]
     = ([], Inr (error_response (lit ''Missing selection_id field'') (lit ''bad_request'')))
   \<and> handle_weight sample_lib sample_daemon [(lit ''type'', JStr (lit ''weight''))]
     = ([], Inr (error_response (lit ''Missing address field'') (lit ''bad_request'')))"
  using weight_missing_field_first_wins [of
          "[(lit ''type'', JStr (lit ''weight'')), (lit ''address'', JStr (lit ''A1'')),
            (lit ''selection_id'', JNull), (lit ''balance_round'', JStr [])]"
          sample_lib sample_daemon]
        weight_missing_field_first_wins [of "[(lit ''type'', JStr (lit ''weight''))]"
          sample_lib sample_daemon]
  by (simp add: dict_get_def dict_get_default_def lit_def)

section \<open>Total weight\<close>

text \<open>
  Claim C5. A total_weight request is answered with \<^verbatim>\<open>Missing balance_round field\<close> when
  balance_round is missing or empty, else with \<^verbatim>\<open>Missing vote_round field\<close> when
  vote_round is missing or empty (both with code \<^verbatim>\<open>bad_request\<close>), and otherwise with the
  total weight as the string of its decimal digits, whatever the two values are.
\<close>

theorem total_weight_request:
  assumes "dict_get_default kvs (lit ''type'') (JStr []) = JStr (lit ''total_weight'')"
  shows "snd (handle_request L d (JObj kvs)) =
           (if \<not> truthy (dict_get kvs (lit ''balance_round'')) then
              Inr (error_response (lit ''Missing balance_round field'') (lit ''bad_request''))
            else if \<not> truthy (dict_get kvs (lit ''vote_round'')) then
              Inr (error_response (lit ''Missing vote_round field'') (lit ''bad_request''))
            else Inr (JObj [(lit ''total_weight'', JStr (str_int (total_weight d)))]))"
  using assms
  by (simp add: handle_request_def handle_total_weight_def Let_def lit_def)

theorem total_weight_request_witness:
  "snd (handle_request sample_lib sample_daemon
          (JObj [(lit ''type'', JStr (lit ''total_weight'')),
                 (lit ''balance_round'', JStr (lit ''5'')),
                 (lit ''vote_round'', JStr (lit ''6''))]))
     = Inr (JObj [(lit ''total_weight'', JStr (lit ''1000000''))])"
  using total_weight_request [of
          "[(lit ''type'', JStr (lit ''total_weight'')),
            (lit ''balance_round'', JStr (lit ''5'')),
            (lit ''vote_round'', JStr (lit ''6''))]" sample_lib sample_daemon]
  by (simp add: sample_daemon_def dict_get_def dict_get_default_def lit_def str_int_def
        digits10.simps)

section \<open>Dispatch\<close>

text \<open>
  Claim C6. A decoded JSON object whose type field is none of \<^verbatim>\<open>ping\<close>, \<^verbatim>\<open>identity\<close>,
  \<^verbatim>\<open>weight\<close> and \<^verbatim>\<open>total_weight\<close> is answered with the error
  \<^verbatim>\<open>Unknown request type: <type>\<close> and code \<^verbatim>\<open>unsupported\<close>; the type is substituted as the
  f-string renders it, which is the string itself for a string and the empty string
  when the field is missing.
\<close>

theorem unknown_type_unsupported:
  assumes "t = dict_get_default kvs (lit ''type'') (JStr [])"
    and "t \<notin> {JStr (lit ''ping''), JStr (lit ''identity''), JStr (lit ''weight''),
                JStr (lit ''total_weight'')}"
  shows "handle_request L d (JObj kvs) =
           ([], Inr (error_response (lit ''Unknown request type: '' @ py_str L t)
                       (lit ''unsupported'')))
         \<and> (map_of kvs (lit ''type'') = None \<longrightarrow> py_str L t = [])
         \<and> (\<forall>s. t = JStr s \<longrightarrow> py_str L t = s)"
  using assms by (auto simp add: handle_request_def Let_def dict_get_default_def)

theorem unknown_type_unsupported_witness:
  "handle_request sample_lib sample_daemon (JObj [(lit ''type'', JStr (lit ''bogus''))])
     = ([], Inr (JObj [(lit ''error'', JStr (lit ''Unknown request type: bogus'')),
                       (lit ''code'', JStr (lit ''unsupported''))]))
   \<and> handle_request sample_lib sample_daemon (JObj [])
     = ([], Inr (JObj [(lit ''error'', JStr (lit ''Unknown request type: '')),
                       (lit ''code'', JStr (lit ''unsupported''))]))"
  using unknown_type_unsupported [of "JStr (lit ''bogus'')"
          "[(lit ''type'', JStr (lit ''bogus''))]" sample_lib sample_daemon]
        unknown_type_unsupported [of "JStr []" "[]" sample_lib sample_daemon]
  by (simp add: dict_get_default_def error_response_def lit_def)

section \<open>Identity\<close>

text \<open>Decoding inverts encoding: first on the alphabet, then on groups of three bytes.\<close>

lemma b64_code_bound: "b64_code k < 128"
  unfolding b64_code_def by auto

lemma unat_b64_char: "unat (b64_char i) = b64_code (i mod 64)"
proof -
  have "b64_code (i mod 64) < 256" using b64_code_bound [of "i mod 64"] by simp
  then show ?thesis by (simp add: b64_char_def unat_of_nat)
qed

lemma b64_index_char: "i < 64 \<Longrightarrow> b64_index (b64_char i) = Some i"
  unfolding b64_index_def unat_b64_char Let_def b64_code_def
  by (auto split: if_splits)

lemma b64_char_not_pad: "b64_char i \<noteq> 61"
proof
  assume "b64_char i = 61"
  then have "unat (b64_char i) = 61" by simp
  then show False unfolding unat_b64_char b64_code_def by (auto split: if_splits)
qed

lemma b64_char_ascii: "unat (b64_char i) < 128"
  unfolding unat_b64_char by (rule b64_code_bound)

lemma sextets2:
  fixes n :: nat
  shows "n div 262144 * 64 + n div 4096 mod 64 = n div 4096"
  using div_mult_mod_eq [of "n div 4096" 64] by (simp add: div_mult2_eq[symmetric])

lemma sextets3:
  fixes n :: nat
  shows "n div 262144 * 4096 + n div 4096 mod 64 * 64 + n div 64 mod 64 = n div 64"
proof -
  have b: "n div 64 = (n div 4096) * 64 + n div 64 mod 64"
    using div_mult_mod_eq [of "n div 64" 64] by (simp add: div_mult2_eq[symmetric])
  show ?thesis using b sextets2 [of n] by linarith
qed

lemma sextets:
  fixes n :: nat
  shows "(n div 262144) * 262144 + (n div 4096 mod 64) * 4096 + (n div 64 mod 64) * 64 + n mod 64 = n"
proof -
  have a: "n = (n div 64) * 64 + n mod 64" by simp
  have b: "n div 64 = (n div 4096) * 64 + n div 64 mod 64"
    using div_mult_mod_eq [of "n div 64" 64] by (simp add: div_mult2_eq[symmetric])
  have c: "n div 4096 = (n div 262144) * 64 + n div 4096 mod 64"
    using div_mult_mod_eq [of "n div 4096" 64] by (simp add: div_mult2_eq[symmetric])
  show ?thesis using a b c by linarith
qed

lemma group3:
  fixes a b c :: byte
  defines "n \<equiv> unat a * 65536 + unat b * 256 + unat c"
  shows "n div 262144 < 64"
    and "(of_nat (n div 65536) :: byte) = a"
    and "(of_nat (n div 256 mod 256) :: byte) = b"
    and "(of_nat (n mod 256) :: byte) = c"
proof -
  have la: "unat a < 256" and lb: "unat b < 256" and lc: "unat c < 256"
    using unsigned_less [of a, where ?'a = nat] unsigned_less [of b, where ?'a = nat]
      unsigned_less [of c, where ?'a = nat] by simp_all
  show "n div 262144 < 64" using la lb lc unfolding n_def by simp
  have "n div 65536 = unat a" using la lb lc unfolding n_def by simp
  then show "(of_nat (n div 65536) :: byte) = a" by simp
  have n': "n = (unat a * 256 + unat b) * 256 + unat c" unfolding n_def by simp
  have "n div 256 = unat a * 256 + unat b" using lc unfolding n' by simp
  then have "n div 256 mod 256 = unat b" using lb by simp
  then show "(of_nat (n div 256 mod 256) :: byte) = b" by simp
  have "n mod 256 = unat c" using lc unfolding n' by (simp only: mod_mult_self3 mod_less)
  then show "(of_nat (n mod 256) :: byte) = c" by simp
qed

lemma b64_roundtrip: "b64decode (b64encode bs) = Some bs"
proof (induction bs rule: b64encode.induct)
  case 1
  show ?case by simp
next
  case (2 a)
  define n where "n = unat a * 65536"
  have n: "n = unat a * 65536 + unat (0::byte) * 256 + unat (0::byte)" by (simp add: n_def)
  have lt: "n div 262144 < 64" unfolding n by (rule group3(1))
  have a: "(of_nat (n div 65536) :: byte) = a" unfolding n by (rule group3(2))
  note e = sextets2 [of n]
  have f: "n div 4096 div 16 = n div 65536" by (simp add: div_mult2_eq[symmetric])
  show ?case
    using lt a
    by (simp add: Let_def n_def[symmetric] b64_index_char e f)
next
  case (3 a b)
  define n where "n = unat a * 65536 + unat b * 256"
  have n: "n = unat a * 65536 + unat b * 256 + unat (0::byte)" by (simp add: n_def)
  have lt: "n div 262144 < 64" unfolding n by (rule group3(1))
  have a: "(of_nat (n div 65536) :: byte) = a" unfolding n by (rule group3(2))
  have b: "(of_nat (n div 256 mod 256) :: byte) = b" unfolding n by (rule group3(3))
  note e = sextets3 [of n]
  have f: "n div 64 div 4 = n div 256" "n div 256 div 256 = n div 65536"
    by (simp_all add: div_mult2_eq[symmetric])
  show ?case
    using lt a b
    by (simp add: Let_def n_def[symmetric] b64_index_char b64_char_not_pad e f)
next
  case (4 a b c rest)
  define n where "n = unat a * 65536 + unat b * 256 + unat c"
  have lt: "n div 262144 < 64" unfolding n_def by (rule group3(1))
  have a: "(of_nat (n div 65536) :: byte) = a" unfolding n_def by (rule group3(2))
  have b: "(of_nat (n div 256 mod 256) :: byte) = b" unfolding n_def by (rule group3(3))
  have c: "(of_nat (n mod 256) :: byte) = c" unfolding n_def by (rule group3(4))
  show ?case
    using lt a b c "4.IH"
    by (simp add: Let_def n_def[symmetric] b64_index_char b64_char_not_pad sextets)
qed

lemma b64encode_ascii: "list_all (\<lambda>b. unat b < 128) (b64encode bs)"
  by (induction bs rule: b64encode.induct) (simp_all add: Let_def b64_char_ascii)

text \<open>
  Claim C7. An identity request is answered with the three configured values: the
  genesis_hash field, read back as ASCII and base64-decoded, is exactly the configured
  genesis hash (of any length, 32 bytes included), and protocol_version and
  algorithm_version are the configured strings.
\<close>

theorem identity_genesis_hash_roundtrip:
  assumes "dict_get_default kvs (lit ''type'') (JStr []) = JStr (lit ''identity'')"
  shows "\<exists>g. handle_request L d (JObj kvs) =
               ([], Inr (JObj [(lit ''genesis_hash'', JStr g),
                               (lit ''protocol_version'', JStr (protocol_version d)),
                               (lit ''algorithm_version'', JStr (algorithm_version d))]))
             \<and> b64decode (ascii_encode g) = Some (genesis_hash d)"
proof -
  let ?g = "map unat (b64encode (genesis_hash d))"
  have enc: "ascii_encode ?g = b64encode (genesis_hash d)"
    by (simp add: ascii_encode_def comp_def map_idI)
  have "handle_identity d =
          Inr (JObj [(lit ''genesis_hash'', JStr ?g),
                     (lit ''protocol_version'', JStr (protocol_version d)),
                     (lit ''algorithm_version'', JStr (algorithm_version d))])"
    by (simp add: handle_identity_def ascii_decode_def b64encode_ascii)
  then have "handle_request L d (JObj kvs) =
               ([], Inr (JObj [(lit ''genesis_hash'', JStr ?g),
                               (lit ''protocol_version'', JStr (protocol_version d)),
                               (lit ''algorithm_version'', JStr (algorithm_version d))]))"
    using assms by (simp add: handle_request_def Let_def lit_def)
  moreover have "b64decode (ascii_encode ?g) = Some (genesis_hash d)"
    unfolding enc by (rule b64_roundtrip)
  ultimately show ?thesis by blast
qed

theorem identity_genesis_hash_roundtrip_witness:
  "\<exists>g. handle_request sample_lib sample_daemon (JObj [(lit ''type'', JStr (lit ''identity''))]) =
          ([], Inr (JObj [(lit ''genesis_hash'', JStr g),
                          (lit ''protocol_version'', JStr (lit ''1.0'')),
                          (lit ''algorithm_version'', JStr (lit ''1.0''))]))
        \<and> b64decode (ascii_encode g) = Some (replicate 32 0)"
  using identity_genesis_hash_roundtrip [of "[(lit ''type'', JStr (lit ''identity''))]"
          sample_lib sample_daemon]
  by (simp add: dict_get_default_def sample_daemon_def)

section \<open>Framing and decoding\<close>

lemma read_loop_stop:
  assumes "i < length chunks"
    and "\<forall>j<i. chunks ! j \<noteq> [] \<and> 0x7D \<notin> set (chunks ! j)"
    and "chunks ! i = [] \<or> 0x7D \<in> set (chunks ! i)"
    and "0x7D \<notin> set data"
  shows "read_loop data (map Chunk chunks) = Some (Inr (data @ concat (take (Suc i) chunks)))"
  using assms
proof (induction chunks arbitrary: data i)
  case Nil
  then show ?case by simp
next
  case (Cons c cs)
  show ?case
  proof (cases i)
    case 0
    with Cons.prems show ?thesis by (auto simp add: Let_def)
  next
    case (Suc k)
    from Cons.prems Suc have c: "c \<noteq> []" "0x7D \<notin> set c" by auto
    have k: "k < length cs" using Cons.prems Suc by simp
    have pre: "\<forall>j<k. cs ! j \<noteq> [] \<and> 0x7D \<notin> set (cs ! j)"
      using Cons.prems(2) Suc by auto
    have stop: "cs ! k = [] \<or> 0x7D \<in> set (cs ! k)" using Cons.prems(3) Suc by simp
    have d: "0x7D \<notin> set (data @ c)" using c Cons.prems(4) by simp
    from Cons.IH [OF k pre stop d] c Cons.prems(4) Suc show ?thesis
      by (simp add: Let_def)
  qed
qed

lemma read_loop_waits:
  assumes "\<forall>c \<in> set chunks. c \<noteq> [] \<and> 0x7D \<notin> set c" and "0x7D \<notin> set data"
  shows "read_loop data (map Chunk chunks) = None"
  using assms by (induction chunks arbitrary: data) (simp_all add: Let_def)

text \<open>
  Claim C8. The read loop appends the received chunks and stops at the first chunk that
  is empty (the peer has closed) or after which the buffer contains \<^verbatim>\<open>}\<close>: its result is
  the concatenation of the chunks up to that one, whatever follows. When that result is
  empty (no byte was received), the handler sends nothing, logs nothing and closes
  the socket.
\<close>

theorem read_loop_first_stop:
  assumes "i < length chunks"
    and "\<forall>j<i. chunks ! j \<noteq> [] \<and> 0x7D \<notin> set (chunks ! j)"
    and "chunks ! i = [] \<or> 0x7D \<in> set (chunks ! i)"
  shows "read_loop [] (map Chunk chunks) = Some (Inr (concat (take (Suc i) chunks)))
       \<and> (concat (take (Suc i) chunks) = [] \<longrightarrow>
            handle_client L d \<lparr>recvs = map Chunk chunks, sendall_fails = sf\<rparr>
              = Some \<lparr>sent = [], closed = True, logged = [], accesses = []\<rparr>)"
  using read_loop_stop [OF assms, of "[]"] by (simp add: handle_client_def)

theorem read_loop_first_stop_witness:
  "read_loop [] (map Chunk [[0x7B], [0x7D, 0x0A], [0x7B, 0x7D]]) = Some (Inr [0x7B, 0x7D, 0x0A])
   \<and> handle_client sample_lib sample_daemon \<lparr>recvs = map Chunk [[], [0x7B, 0x7D]], sendall_fails = False\<rparr>
       = Some \<lparr>sent = [], closed = True, logged = [], accesses = []\<rparr>"
  using read_loop_first_stop [of 1 "[[0x7B], [0x7D, 0x0A], [0x7B, 0x7D]]" sample_lib sample_daemon False]
        read_loop_first_stop [of 0 "[[], [0x7B, 0x7D]]" sample_lib sample_daemon False]
  by (simp add: less_Suc_eq)

text \<open>
  Claim C2 says that a buffer that is not valid UTF-8 is answered with an
  \<^verbatim>\<open>Invalid JSON\<close> error. The handler catches \<^verbatim>\<open>json.JSONDecodeError\<close> only, and
  \<^verbatim>\<open>data.decode("utf-8")\<close> raises \<^verbatim>\<open>UnicodeDecodeError\<close>: for the single byte \<open>0xFF\<close>
  followed by the peer's close, the exception reaches the outer handler, which prints
  it; nothing is sent and the socket is closed.
\<close>

theorem invalid_utf8_no_response:
  "handle_client L d \<lparr>recvs = [Chunk [0xFF], Chunk []], sendall_fails = False\<rparr>
     = Some \<lparr>sent = [], closed = True, logged = [ErrorHandlingClient UnicodeDecodeError], accesses = []\<rparr>"
  by (simp add: handle_client_def Let_def)

text \<open>The other half of the claim holds: valid UTF-8 that is not JSON is answered.\<close>

lemma invalid_json_bad_request:
  assumes "read_loop [] (recvs conn) = Some (Inr data)" and "data \<noteq> []"
    and "utf8_decode data = Some text" and "json_loads L text = Inl (JSONDecodeError msg)"
    and "\<not> sendall_fails conn"
  shows "handle_client L d conn =
           Some \<lparr>sent = [error_response (lit ''Invalid JSON: '' @ msg) (lit ''bad_request'')],
                 closed = True, logged = [], accesses = []\<rparr>"
  using assms by (simp add: handle_client_def send_response_def)

section \<open>The per-connection boundary\<close>

lemma handle_identity_returns:
  "\<exists>r. handle_identity d = Inr r"
  by (simp add: handle_identity_def ascii_decode_def b64encode_ascii)

text \<open>
  Claim C3 as stated fails: the decoded value \<^verbatim>\<open>[]\<close> has no \<^verbatim>\<open>get\<close> method, so
  \<^verbatim>\<open>_handle_request\<close> raises \<^verbatim>\<open>AttributeError\<close>; the handler prints it and closes the
  socket without sending a response.
\<close>

theorem non_object_no_response:
  "handle_request sample_lib sample_daemon (JArr []) = ([], Inl AttributeError)
   \<and> handle_client sample_lib sample_daemon \<lparr>recvs = [Chunk [0x5B, 0x5D], Chunk []], sendall_fails = False\<rparr>
       = Some \<lparr>sent = [], closed = True, logged = [ErrorHandlingClient AttributeError], accesses = []\<rparr>"
  by (simp add: handle_request_def handle_client_def Let_def sample_lib_def sample_loads_def lit_def)

text \<open>
  Claim C3, amended. For every successfully decoded JSON value the handler returns with
  the socket closed. When request handling returns a response, that response is the one
  thing sent (nothing when the write fails); when request handling raises, nothing is
  sent and the exception is printed. Every value that is not an object raises
  \<^verbatim>\<open>AttributeError\<close>. An object gets a response whenever its type is not \<^verbatim>\<open>weight\<close>, or
  an override is configured, or its address is a string.
\<close>

theorem decoded_value_response_or_log:
  assumes "read_loop [] (recvs conn) = Some (Inr data)" and "data \<noteq> []"
    and "utf8_decode data = Some text" and "json_loads L text = Inr v"
  shows "\<exists>out. handle_client L d conn = Some out \<and> closed out
           \<and> (case snd (handle_request L d v) of
                 Inr response \<Rightarrow>
                   sent out = (if sendall_fails conn then [] else [response])
                   \<and> logged out =
                       (if sendall_fails conn then [ErrorSendingResponse OSError] else [])
               | Inl e \<Rightarrow> sent out = [] \<and> logged out = [ErrorHandlingClient e])
           \<and> ((\<forall>kvs. v \<noteq> JObj kvs) \<longrightarrow> snd (handle_request L d v) = Inl AttributeError)
           \<and> ((\<exists>kvs. v = JObj kvs \<and>
                  (dict_get_default kvs (lit ''type'') (JStr []) \<noteq> JStr (lit ''weight'')
                   \<or> default_weight d \<noteq> None
                   \<or> (\<exists>a. dict_get kvs (lit ''address'') = JStr a)))
                \<longrightarrow> (\<exists>response. snd (handle_request L d v) = Inr response))"
proof -
  obtain evs res where hr: "handle_request L d v = (evs, res)" by (cases "handle_request L d v")
  have out: "\<exists>out. handle_client L d conn = Some out \<and> closed out
           \<and> (case snd (handle_request L d v) of
                 Inr response \<Rightarrow>
                   sent out = (if sendall_fails conn then [] else [response])
                   \<and> logged out =
                       (if sendall_fails conn then [ErrorSendingResponse OSError] else [])
               | Inl e \<Rightarrow> sent out = [] \<and> logged out = [ErrorHandlingClient e])"
    using assms hr by (cases res) (simp_all add: handle_client_def send_response_def)
  have nonobj: "(\<forall>kvs. v \<noteq> JObj kvs) \<longrightarrow> snd (handle_request L d v) = Inl AttributeError"
    by (cases v) (simp_all add: handle_request_def)
  have obj: "(\<exists>kvs. v = JObj kvs \<and>
                  (dict_get_default kvs (lit ''type'') (JStr []) \<noteq> JStr (lit ''weight'')
                   \<or> default_weight d \<noteq> None
                   \<or> (\<exists>a. dict_get kvs (lit ''address'') = JStr a)))
                \<longrightarrow> (\<exists>response. snd (handle_request L d v) = Inr response)"
    using handle_identity_returns [of d]
    by (auto simp add: handle_request_def handle_weight_def handle_total_weight_def Let_def
          split: option.splits)
  from out nonobj obj show ?thesis by blast
qed

theorem decoded_value_response_or_log_witness:
  "\<exists>out. handle_client sample_lib sample_daemon \<lparr>recvs = [Chunk [0x7B, 0x7D]], sendall_fails = False\<rparr> = Some out
      \<and> closed out
      \<and> sent out = [error_response (lit ''Unknown request type: '') (lit ''unsupported'')]
      \<and> logged out = []"
  using decoded_value_response_or_log [of "\<lparr>recvs = [Chunk [0x7B, 0x7D]], sendall_fails = False\<rparr>" "[0x7B, 0x7D]" "lit ''{}''"
              sample_lib "JObj []" sample_daemon]
  by (simp add: Let_def sample_lib_def sample_loads_def lit_def handle_request_def dict_get_default_def)

section \<open>Lock discipline\<close>

lemma handle_weight_guarded: "guarded False (fst (handle_weight L d request))"
  by (auto simp add: handle_weight_def Let_def split: option.splits json.splits)

lemma setters_guarded:
  "guarded False (fst (set_weight d a s b w))" "guarded False (fst (set_total_weight d w))"
  by (simp_all add: set_weight_def set_total_weight_def Let_def)

text \<open>
  Claim C9 says that every read and write of the tables and of the total weight happens
  under the lock. The weight handler and both setters do so, but \<^verbatim>\<open>_handle_total_weight\<close>
  reads \<^verbatim>\<open>self.total_weight\<close> without taking the lock that \<^verbatim>\<open>set_total_weight\<close> holds
  while writing it.
\<close>

theorem total_weight_read_unlocked:
  "fst (handle_total_weight d [(lit ''type'', JStr (lit ''total_weight'')),
          (lit ''balance_round'', JStr (lit ''1'')), (lit ''vote_round'', JStr (lit ''2''))])
     = [Read TotalWeight]
   \<and> \<not> guarded False (fst (handle_total_weight d [(lit ''type'', JStr (lit ''total_weight'')),
          (lit ''balance_round'', JStr (lit ''1'')), (lit ''vote_round'', JStr (lit ''2''))]))
   \<and> guarded False (fst (set_total_weight d w))"
  by (simp add: handle_total_weight_def set_total_weight_def dict_get_def dict_get_default_def lit_def)

section \<open>Presence of a field\<close>

lemma falsy_values:
  "(\<not> truthy v) = (v \<in> {JNull, JBool False, JInt 0, JFloat 0, JFloat 0x8000000000000000, JStr [], JArr [], JObj []})"
  by (cases v) auto

lemma weight_not_error: "weight_response w \<noteq> error_response m c"
  by (simp add: weight_response_def error_response_def)

text \<open>
  Claim C10 as stated fails in its last part: not every true value that is not a string
  reaches the composite key or the fallback. A non-empty list given as address passes
  the presence checks and then raises \<^verbatim>\<open>TypeError\<close> at
  \<^verbatim>\<open>address in self.address_weights\<close>, before the key is built and without the weight
  table being read; and with an override configured the override is returned before
  any lookup, here for a request whose selection_id is the number 5.
\<close>

theorem list_address_skips_key_and_fallback:
  "truthy (JArr [JInt 1])
   \<and> handle_weight sample_lib sample_daemon
         [(lit ''type'', JStr (lit ''weight'')), (lit ''address'', JArr [JInt 1]),
          (lit ''selection_id'', JStr (lit ''x'')), (lit ''balance_round'', JStr (lit ''5''))]
       = ([Acquire, Read AddressWeights, Release], Inl TypeError)
   \<and> truthy (JInt 5)
   \<and> handle_weight sample_lib (sample_daemon\<lparr>default_weight := Some 7\<rparr>)
         [(lit ''type'', JStr (lit ''weight'')), (lit ''address'', JStr (lit ''A'')),
          (lit ''selection_id'', JInt 5), (lit ''balance_round'', JStr (lit ''5''))]
       = ([], Inr (weight_response 7))"
  by (simp add: handle_weight_def Let_def dict_get_def dict_get_default_def lit_def
        sample_daemon_def)

text \<open>
  Claim C10, amended. Whether a required field is present is decided by the truthiness
  of its value, not by its being a string. The false values are null (also a missing
  field), false, the numbers 0, 0.0 and -0.0, the empty string, the empty array and the
  empty object; the first false field of a weight or total_weight request is reported
  as \<^verbatim>\<open>Missing <field> field\<close> with code \<^verbatim>\<open>bad_request\<close>. When all fields are true values,
  of whatever type, validation passes: a total_weight request is answered with the
  total weight, and a weight request gets no error response. For the weight request
  the override is returned if one is configured; otherwise an address that is a list
  or an object raises \<^verbatim>\<open>TypeError\<close> at the address table, and every other value flows
  into the composite key, rendered as an f-string does, and on a miss into the
  fallback, which raises \<^verbatim>\<open>TypeError\<close> for an address that is not a string.
\<close>

theorem presence_is_truthiness:
  fixes request :: "(pystr \<times> json) list"
  defines "a \<equiv> dict_get request (lit ''address'')"
    and "s \<equiv> dict_get request (lit ''selection_id'')"
    and "b \<equiv> dict_get request (lit ''balance_round'')"
    and "vr \<equiv> dict_get request (lit ''vote_round'')"
  shows "(\<forall>v. (\<not> truthy v) =
            (v \<in> {JNull, JBool False, JInt 0, JFloat 0, JFloat 0x8000000000000000,
                   JStr [], JArr [], JObj []}))
    \<and> (\<not> truthy a \<longrightarrow> handle_weight L d request =
          ([], Inr (error_response (lit ''Missing address field'') (lit ''bad_request''))))
    \<and> (truthy a \<and> \<not> truthy s \<longrightarrow> handle_weight L d request =
          ([], Inr (error_response (lit ''Missing selection_id field'') (lit ''bad_request''))))
    \<and> (truthy a \<and> truthy s \<and> \<not> truthy b \<longrightarrow> handle_weight L d request =
          ([], Inr (error_response (lit ''Missing balance_round field'') (lit ''bad_request''))))
    \<and> (\<not> truthy b \<longrightarrow> handle_total_weight d request =
          ([], Inr (error_response (lit ''Missing balance_round field'') (lit ''bad_request''))))
    \<and> (truthy b \<and> \<not> truthy vr \<longrightarrow> handle_total_weight d request =
          ([], Inr (error_response (lit ''Missing vote_round field'') (lit ''bad_request''))))
    \<and> (truthy b \<and> truthy vr \<longrightarrow> snd (handle_total_weight d request) =
          Inr (JObj [(lit ''total_weight'', JStr (str_int (total_weight d)))]))
    \<and> (truthy a \<and> truthy s \<and> truthy b \<longrightarrow>
          (\<forall>m c. snd (handle_weight L d request) \<noteq> Inr (error_response m c))
          \<and> snd (handle_weight L d request) =
            (case default_weight d of
               Some w \<Rightarrow> Inr (weight_response w)
             | None \<Rightarrow>
                (case a of
                   JArr _ \<Rightarrow> Inl TypeError
                 | JObj _ \<Rightarrow> Inl TypeError
                 | _ \<Rightarrow>
                    (case (case a of JStr x \<Rightarrow> address_weights d x | _ \<Rightarrow> None) of
                       Some w \<Rightarrow> Inr (weight_response w)
                     | None \<Rightarrow>
                        (case weight_table d
                                (py_str L a @ lit '':'' @ py_str L s @ lit '':'' @ py_str L b) of
                           Some w \<Rightarrow> Inr (weight_response w)
                         | None \<Rightarrow>
                            (case a of
                               JStr x \<Rightarrow> Inr (weight_response (int (sum_list x mod 1000000)))
                             | _ \<Rightarrow> Inl TypeError))))))"
proof -
  have f: "\<forall>v. (\<not> truthy v) =
            (v \<in> {JNull, JBool False, JInt 0, JFloat 0, JFloat 0x8000000000000000,
                   JStr [], JArr [], JObj []})"
    using falsy_values by blast
  have w: "truthy a \<and> truthy s \<and> truthy b \<longrightarrow> snd (handle_weight L d request) =
            (case default_weight d of
               Some w \<Rightarrow> Inr (weight_response w)
             | None \<Rightarrow>
                (case a of
                   JArr _ \<Rightarrow> Inl TypeError
                 | JObj _ \<Rightarrow> Inl TypeError
                 | _ \<Rightarrow>
                    (case (case a of JStr x \<Rightarrow> address_weights d x | _ \<Rightarrow> None) of
                       Some w \<Rightarrow> Inr (weight_response w)
                     | None \<Rightarrow>
                        (case weight_table d
                                (py_str L a @ lit '':'' @ py_str L s @ lit '':'' @ py_str L b) of
                           Some w \<Rightarrow> Inr (weight_response w)
                         | None \<Rightarrow>
                            (case a of
                               JStr x \<Rightarrow> Inr (weight_response (int (sum_list x mod 1000000)))
                             | _ \<Rightarrow> Inl TypeError)))))"
    unfolding a_def s_def b_def
    by (simp add: handle_weight_def Let_def split: option.splits json.splits)
  have n: "truthy a \<and> truthy s \<and> truthy b \<longrightarrow>
             (\<forall>m c. snd (handle_weight L d request) \<noteq> Inr (error_response m c))"
    unfolding a_def s_def b_def
    by (auto simp add: handle_weight_def Let_def weight_not_error split: option.splits json.splits)
  have m: "(\<not> truthy a \<longrightarrow> handle_weight L d request =
          ([], Inr (error_response (lit ''Missing address field'') (lit ''bad_request''))))
    \<and> (truthy a \<and> \<not> truthy s \<longrightarrow> handle_weight L d request =
          ([], Inr (error_response (lit ''Missing selection_id field'') (lit ''bad_request''))))
    \<and> (truthy a \<and> truthy s \<and> \<not> truthy b \<longrightarrow> handle_weight L d request =
          ([], Inr (error_response (lit ''Missing balance_round field'') (lit ''bad_request''))))"
    unfolding a_def s_def b_def by (simp add: handle_weight_def Let_def)
  have t: "(\<not> truthy b \<longrightarrow> handle_total_weight d request =
          ([], Inr (error_response (lit ''Missing balance_round field'') (lit ''bad_request''))))
    \<and> (truthy b \<and> \<not> truthy vr \<longrightarrow> handle_total_weight d request =
          ([], Inr (error_response (lit ''Missing vote_round field'') (lit ''bad_request''))))
    \<and> (truthy b \<and> truthy vr \<longrightarrow> snd (handle_total_weight d request) =
          Inr (JObj [(lit ''total_weight'', JStr (str_int (total_weight d)))]))"
    unfolding b_def vr_def by (simp add: handle_total_weight_def Let_def)
  from f w n m t show ?thesis by blast
qed

theorem presence_is_truthiness_witness:
  "snd (handle_weight sample_lib (sample_daemon\<lparr>weight_table := [lit ''A:5:7'' \<mapsto> 42]\<rparr>)
          [(lit ''address'', JStr (lit ''A'')), (lit ''selection_id'', JInt 5),
           (lit ''balance_round'', JInt 7)])
     = Inr (JObj [(lit ''weight'', JStr (lit ''42''))])
   \<and> handle_weight sample_lib sample_daemon
          [(lit ''address'', JStr (lit ''A'')), (lit ''selection_id'', JInt 0),
           (lit ''balance_round'', JInt 7)]
     = ([], Inr (error_response (lit ''Missing selection_id field'') (lit ''bad_request'')))"
  using presence_is_truthiness [where L = sample_lib
          and d = "sample_daemon\<lparr>weight_table := [lit ''A:5:7'' \<mapsto> 42]\<rparr>"
          and request = "[(lit ''address'', JStr (lit ''A'')), (lit ''selection_id'', JInt 5),
                          (lit ''balance_round'', JInt 7)]"]
        presence_is_truthiness [where L = sample_lib and d = sample_daemon
          and request = "[(lit ''address'', JStr (lit ''A'')), (lit ''selection_id'', JInt 0),
                          (lit ''balance_round'', JInt 7)]"]
  by (simp add: sample_daemon_def dict_get_def dict_get_default_def lit_def str_int_def
        digits10.simps weight_response_def)

end
